theory Spec2Isabelle
  imports Main "HOL-Library.Word" "HOL-Library.Sublist"
begin

section \<open>The browser page of prompt-to-code (static/js/app.js)\<close>

text \<open>
  The script keeps two globals (\<open>exampleCount\<close>, \<open>sessionId\<close>) and otherwise reads and
  writes the DOM. The model is a record \<open>page\<close> holding the globals, the properties of the
  DOM elements the script touches, and the network as the script sees it: the list of
  \<open>fetch\<close> calls issued so far and, per endpoint, how many of them have not settled yet.

  An \<open>async\<close> function runs synchronously up to its first \<open>await\<close> and is resumed when
  the awaited promise settles. Every such function is therefore modelled by two state
  transformers: \<open>f_begin\<close>, the code up to and including the call of \<open>fetch\<close>, and
  \<open>f_resume\<close>, the code after the two awaits (\<open>await fetch(...)\<close> and
  \<open>await response.json()\<close>), which takes the way the promises settled as an argument.
  Nothing the script does between the two awaits touches the page, so they are one step.

  Response bodies carry the field types of the HTTP interface (all strings, one flag, one
  list of file names; \<open>error\<close> and \<open>note\<close> optional). \<open>copyToClipboard\<close>,
  \<open>showSuccess\<close> and \<open>switchTab\<close> touch only the clipboard, the status message and the
  tab classes and are not modelled.
\<close>

subsection \<open>Strings\<close>

text \<open>
  A JavaScript string is a sequence of UTF-16 code units. \<open>js\<close> embeds an ASCII literal.
\<close>

type_synonym jsstring = "16 word list"

definition js :: "string \<Rightarrow> jsstring" where
  "js cs = map of_char cs"

text \<open>
  \<open>String.prototype.trim\<close> removes leading and trailing white space and line terminators
  (ECMAScript: TAB, LF, VT, FF, CR, SP, NBSP, the Unicode space separators, LS, PS, ZWNBSP).
\<close>

definition isWhiteSpace :: "16 word \<Rightarrow> bool" where
  "isWhiteSpace c \<longleftrightarrow>
     c \<in> {0x0009, 0x000A, 0x000B, 0x000C, 0x000D, 0x0020, 0x00A0, 0x1680,
          0x2000, 0x2001, 0x2002, 0x2003, 0x2004, 0x2005, 0x2006, 0x2007,
          0x2008, 0x2009, 0x200A, 0x2028, 0x2029, 0x202F, 0x205F, 0x3000, 0xFEFF}"

definition trim :: "jsstring \<Rightarrow> jsstring" where
  "trim s = rev (dropWhile isWhiteSpace (rev (dropWhile isWhiteSpace s)))"

text \<open>\<open>String.prototype.includes\<close>: the argument occurs as a contiguous substring.\<close>

definition includes_str :: "jsstring \<Rightarrow> jsstring \<Rightarrow> bool" where
  "includes_str s sub = list_ex (prefix sub) (suffixes s)"

text \<open>
  The decimal digits of a counter, as a template literal \<open>${n}\<close> renders it. The counters
  of the script are far below \<open>2^53\<close>, where a JavaScript number is an exact integer.
\<close>

fun digits :: "nat \<Rightarrow> jsstring" where
  "digits n =
     (if n < 10 then [of_nat (48 + n)]
      else digits (n div 10) @ [of_nat (48 + n mod 10)])"

declare digits.simps [simp del]

text \<open>The text \<open>Example ${n}\<close> of an example's header.\<close>

definition example_label :: "nat \<Rightarrow> jsstring" where
  "example_label n = js ''Example '' @ digits n"

text \<open>
  JavaScript truthiness of a string, and \<open>a || b\<close> on an optional string field
  (\<open>None\<close> is \<open>undefined\<close> or \<open>null\<close>).
\<close>

definition truthy :: "jsstring \<Rightarrow> bool" where
  "truthy s \<longleftrightarrow> s \<noteq> []"

definition or_else :: "jsstring option \<Rightarrow> jsstring \<Rightarrow> jsstring" where
  "or_else a b = (case a of Some v \<Rightarrow> (if truthy v then v else b) | None \<Rightarrow> b)"

text \<open>The markers that start a status text: U+2713, U+26A0, U+2717, each with a space.\<close>

definition check_mark :: jsstring where
  "check_mark = [0x2713, 0x0020]"

definition warning_mark :: jsstring where
  "warning_mark = [0x26A0, 0x0020]"

definition error_mark :: jsstring where
  "error_mark = [0x2717, 0x0020]"

subsection \<open>Data\<close>

text \<open>
  One \<open>div.example-item\<close>: its \<open>data-example-id\<close>, the text of its
  \<open>span.example-number\<close>, and the values of its two textareas (whose element ids end in
  the same identifier).
\<close>

record example_item =
  exampleId :: nat
  example_number :: jsstring
  example_input :: jsstring
  example_output :: jsstring

text \<open>The payload built by \<open>collectFormData\<close>.\<close>

record example =
  ex_input :: jsstring
  ex_output :: jsstring

record form_data =
  taskDescription :: jsstring
  inputType :: jsstring
  outputType :: jsstring
  ollamaModel :: jsstring
  examples :: "example list"

text \<open>The calls of \<open>fetch\<close>: the health check, the generation and the test request.\<close>

datatype request =
    GetHealth
  | PostGenerate form_data
  | PostTest jsstring jsstring

text \<open>Parsed response bodies.\<close>

record health_data =
  status :: jsstring
  ollama :: jsstring

record error_body =
  error :: "jsstring option"

record generate_result = error_body +
  result_sessionId :: jsstring
  optimizationSuccess :: bool
  optimizationMessage :: jsstring
  pipelineCode :: jsstring
  syntheticPrompt :: jsstring
  filesGenerated :: "jsstring list"

record test_result = error_body +
  result_output :: jsstring
  result_note :: "jsstring option"

text \<open>
  How the two awaited promises of a request settle: one of them rejects (\<open>fetch\<close> on a
  network failure, \<open>response.json()\<close> on a body that is not JSON) with an error whose
  \<open>message\<close> is given, or a response arrives with its \<open>ok\<close> flag and parsed body.
\<close>

datatype 'b outcome =
    Rejected jsstring
  | Reply bool 'b

text \<open>An \<open>a.download-link\<close> element.\<close>

record download_link =
  href :: jsstring
  link_className :: jsstring
  link_textContent :: jsstring
  download :: jsstring

record page =
  exampleCount :: nat
  sessionId :: "jsstring option"
  examples_container :: "example_item list"
  task_description_value :: jsstring
  input_type_value :: jsstring
  output_type_value :: jsstring
  ollama_model_value :: jsstring
  test_input_value :: jsstring
  health_status_textContent :: jsstring
  health_status_className :: jsstring
  generate_btn_disabled :: bool
  test_btn_disabled :: bool
  loading_display :: jsstring
  results_section_display :: jsstring
  test_section_display :: jsstring
  test_output_display :: jsstring
  status_message_className :: jsstring
  status_message_textContent :: jsstring
  pipeline_code_textContent :: jsstring
  synthetic_prompt_textContent :: jsstring
  download_links :: "download_link list"
  test_result_textContent :: jsstring
  error_timers :: nat
  sent :: "request list"
  health_in_flight :: nat
  generate_in_flight :: nat
  test_in_flight :: nat

subsection \<open>Status messaging\<close>

text \<open>
  \<open>showError\<close> shows the results area with an error-styled message and schedules the
  callback that hides the area again.
\<close>

definition showError :: "jsstring \<Rightarrow> page \<Rightarrow> page" where
  "showError message s =
     s\<lparr>results_section_display := js ''block'',
       status_message_className := js ''message error'',
       status_message_textContent := error_mark @ message,
       error_timers := error_timers s + 1\<rparr>"

text \<open>The callback of \<open>showError\<close>'s timer.\<close>

definition showError_timeout :: "page \<Rightarrow> page" where
  "showError_timeout s =
     (let s1 = s\<lparr>error_timers := error_timers s - 1\<rparr>
      in if includes_str (status_message_className s1) (js ''error'')
         then s1\<lparr>results_section_display := js ''none''\<rparr>
         else s1)"

subsection \<open>The network\<close>

text \<open>
  \<open>fetch\<close> issues a request: it is recorded, and it is in flight until it settles.
\<close>

definition fetch :: "request \<Rightarrow> page \<Rightarrow> page" where
  "fetch req s =
     (let s1 = s\<lparr>sent := sent s @ [req]\<rparr>
      in case req of
           GetHealth \<Rightarrow> s1\<lparr>health_in_flight := health_in_flight s1 + 1\<rparr>
         | PostGenerate data \<Rightarrow> s1\<lparr>generate_in_flight := generate_in_flight s1 + 1\<rparr>
         | PostTest sid testInput \<Rightarrow> s1\<lparr>test_in_flight := test_in_flight s1 + 1\<rparr>)"

subsection \<open>Health check\<close>

definition checkHealth_begin :: "page \<Rightarrow> page" where
  "checkHealth_begin s = fetch GetHealth s"

definition checkHealth_resume :: "health_data outcome \<Rightarrow> page \<Rightarrow> page" where
  "checkHealth_resume out s =
     (let s1 = s\<lparr>health_in_flight := health_in_flight s - 1\<rparr>
      in case out of
           Reply ok data \<Rightarrow>
             if status data = js ''healthy'' \<and> ollama data = js ''running''
             then s1\<lparr>health_status_textContent := check_mark @ js ''Ollama is running'',
                     health_status_className := js ''health-status healthy''\<rparr>
             else s1\<lparr>health_status_textContent :=
                       warning_mark @ js ''Ollama is not running - Run: ollama serve'',
                     health_status_className := js ''health-status unhealthy''\<rparr>
         | Rejected message \<Rightarrow>
             s1\<lparr>health_status_textContent := error_mark @ js ''Cannot connect to backend'',
                health_status_className := js ''health-status unhealthy''\<rparr>)"

subsection \<open>Example list\<close>

definition new_example :: "nat \<Rightarrow> example_item" where
  "new_example n =
     \<lparr>exampleId = n, example_number = example_label n,
      example_input = [], example_output = []\<rparr>"

definition addExample :: "page \<Rightarrow> page" where
  "addExample s =
     (let s1 = s\<lparr>exampleCount := exampleCount s + 1\<rparr>
      in s1\<lparr>examples_container :=
              examples_container s1 @ [new_example (exampleCount s1)]\<rparr>)"

text \<open>\<open>querySelector\<close> yields the first element with the identifier; it is removed.\<close>

fun remove_first :: "nat \<Rightarrow> example_item list \<Rightarrow> example_item list" where
  "remove_first i [] = []"
| "remove_first i (e # es) = (if exampleId e = i then es else e # remove_first i es)"

text \<open>The \<open>forEach\<close> of \<open>removeExample\<close>, from \<open>index\<close> on.\<close>

fun renumber :: "nat \<Rightarrow> example_item list \<Rightarrow> example_item list" where
  "renumber index [] = []"
| "renumber index (e # es) =
     e\<lparr>example_number := example_label (index + 1)\<rparr> # renumber (index + 1) es"

definition removeExample :: "nat \<Rightarrow> page \<Rightarrow> page" where
  "removeExample i s =
     (let s1 = s\<lparr>examples_container := remove_first i (examples_container s)\<rparr>
      in s1\<lparr>examples_container := renumber 0 (examples_container s1)\<rparr>)"

subsection \<open>Form collection and validation\<close>

text \<open>
  \<open>document.getElementById\<close> on the id of an item's textarea: the first item of the
  document that carries the identifier. It is only called with the identifier of an item
  of the document, so the search finds one.
\<close>

definition textarea_value ::
  "(example_item \<Rightarrow> jsstring) \<Rightarrow> example_item list \<Rightarrow> nat \<Rightarrow> jsstring" where
  "textarea_value field doc i =
     (case find (\<lambda>e. exampleId e = i) doc of Some e \<Rightarrow> field e | None \<Rightarrow> [])"

text \<open>The \<open>forEach\<close> of \<open>collectFormData\<close> over the items of the document \<open>doc\<close>.\<close>

fun collect_examples :: "example_item list \<Rightarrow> example_item list \<Rightarrow> example list" where
  "collect_examples doc [] = []"
| "collect_examples doc (item # rest) =
     (let inp = trim (textarea_value example_input doc (exampleId item));
          outp = trim (textarea_value example_output doc (exampleId item))
      in if truthy inp \<and> truthy outp
         then \<lparr>ex_input = inp, ex_output = outp\<rparr> # collect_examples doc rest
         else collect_examples doc rest)"

definition collectFormData :: "page \<Rightarrow> form_data" where
  "collectFormData s =
     \<lparr>taskDescription = trim (task_description_value s),
      inputType = input_type_value s,
      outputType = output_type_value s,
      ollamaModel = or_else (Some (trim (ollama_model_value s))) (js ''llama3.2''),
      examples = collect_examples (examples_container s) (examples_container s)\<rparr>"

text \<open>\<open>validateFormData\<close> returns its verdict and the page, on which it may show an error.\<close>

definition validateFormData :: "form_data \<Rightarrow> page \<Rightarrow> bool \<times> page" where
  "validateFormData data s =
     (if \<not> truthy (taskDescription data)
      then (False, showError (js ''Please provide a task description'') s)
      else if length (examples data) = 0
      then (False, showError (js ''Please provide at least one example'') s)
      else (True, s))"

subsection \<open>Pipeline generation\<close>

definition make_link :: "jsstring \<Rightarrow> download_link" where
  "make_link filename =
     \<lparr>href = js ''/api/download/'' @ filename,
      link_className = js ''download-link'',
      link_textContent = [0xD83D, 0xDCE5] @ js '' Download '' @ filename,
      download = filename\<rparr>"

definition displayResults :: "generate_result \<Rightarrow> page \<Rightarrow> page" where
  "displayResults result s =
     (let s1 = s\<lparr>results_section_display := js ''block''\<rparr>;
          s2 = (if optimizationSuccess result
                then s1\<lparr>status_message_className := js ''message success'',
                        status_message_textContent := check_mark @ optimizationMessage result,
                        test_section_display := js ''block''\<rparr>
                else s1\<lparr>status_message_className := js ''message warning'',
                        status_message_textContent := warning_mark @ optimizationMessage result,
                        test_section_display := js ''none''\<rparr>);
          s3 = s2\<lparr>pipeline_code_textContent := pipelineCode result\<rparr>;
          s4 = s3\<lparr>synthetic_prompt_textContent := syntheticPrompt result\<rparr>;
          s5 = s4\<lparr>download_links := []\<rparr>
      in foldl (\<lambda>t filename. t\<lparr>download_links := download_links t @ [make_link filename]\<rparr>)
           s5 (filesGenerated result))"

text \<open>\<open>generatePipeline\<close> up to the call of \<open>fetch\<close>.\<close>

definition show_loading :: "page \<Rightarrow> page" where
  "show_loading s =
     s\<lparr>generate_btn_disabled := True,
       loading_display := js ''block'',
       results_section_display := js ''none''\<rparr>"

definition generatePipeline_begin :: "page \<Rightarrow> page" where
  "generatePipeline_begin s =
     (let data = collectFormData s;
          (valid, s1) = validateFormData data s
      in if \<not> valid then s1
         else fetch (PostGenerate data) (show_loading s1))"

text \<open>
  The \<open>try\<close> block after the awaits: \<open>Inl\<close> is the message of the error it throws (the
  page is as it was), \<open>Inr\<close> the page when it completes.
\<close>

definition generatePipeline_try :: "generate_result outcome \<Rightarrow> page \<Rightarrow> jsstring + page" where
  "generatePipeline_try out s =
     (case out of
        Rejected message \<Rightarrow> Inl message
      | Reply ok result \<Rightarrow>
          if \<not> ok then Inl (or_else (error result) (js ''Failed to generate pipeline''))
          else Inr (displayResults result (s\<lparr>sessionId := Some (result_sessionId result)\<rparr>)))"

text \<open>The rest of \<open>generatePipeline\<close>: \<open>try\<close>, \<open>catch\<close>, \<open>finally\<close>.\<close>

definition generatePipeline_resume :: "generate_result outcome \<Rightarrow> page \<Rightarrow> page" where
  "generatePipeline_resume out s =
     (let s0 = s\<lparr>generate_in_flight := generate_in_flight s - 1\<rparr>;
          s1 = (case generatePipeline_try out s0 of
                  Inl message \<Rightarrow> showError message s0
                | Inr s' \<Rightarrow> s')
      in s1\<lparr>generate_btn_disabled := False, loading_display := js ''none''\<rparr>)"

subsection \<open>Pipeline test\<close>

definition testPipeline_begin :: "page \<Rightarrow> page" where
  "testPipeline_begin s =
     (let testInput = trim (test_input_value s)
      in if \<not> truthy testInput then showError (js ''Please provide test input'') s
         else case sessionId s of
                None \<Rightarrow> showError (js ''No pipeline session found'') s
              | Some sid \<Rightarrow>
                  if \<not> truthy sid then showError (js ''No pipeline session found'') s
                  else fetch (PostTest sid testInput) (s\<lparr>test_btn_disabled := True\<rparr>))"

definition testPipeline_try :: "test_result outcome \<Rightarrow> page \<Rightarrow> jsstring + page" where
  "testPipeline_try out s =
     (case out of
        Rejected message \<Rightarrow> Inl message
      | Reply ok result \<Rightarrow>
          if \<not> ok then Inl (or_else (error result) (js ''Failed to test pipeline''))
          else Inr (let s1 = s\<lparr>test_output_display := js ''block''\<rparr>;
                        s2 = s1\<lparr>test_result_textContent := result_output result\<rparr>
                    in case result_note result of
                         None \<Rightarrow> s2
                       | Some n \<Rightarrow>
                           if truthy n
                           then s2\<lparr>test_result_textContent :=
                                     test_result_textContent s2 @ [0x000A, 0x000A] @ js ''Note: '' @ n\<rparr>
                           else s2))"

definition testPipeline_resume :: "test_result outcome \<Rightarrow> page \<Rightarrow> page" where
  "testPipeline_resume out s =
     (let s0 = s\<lparr>test_in_flight := test_in_flight s - 1\<rparr>;
          s1 = (case testPipeline_try out s0 of
                  Inl message \<Rightarrow> showError message s0
                | Inr s' \<Rightarrow> s')
      in s1\<lparr>test_btn_disabled := False\<rparr>)"

subsection \<open>The event loop\<close>

text \<open>
  What can happen to the page: the user clicks a button or edits a field, a request
  settles, the timer of \<open>showError\<close> fires. \<open>setupEventListeners\<close> binds the three buttons
  to \<open>addExample\<close>, \<open>generatePipeline\<close> and \<open>testPipeline\<close>; each example's Remove
  button calls \<open>removeExample\<close> with the example's identifier. A disabled button
  dispatches no click, a request settles only while one is in flight, and a timer fires
  only while one is scheduled.
\<close>

datatype event =
    ClickAddExample
  | ClickRemoveExample nat
  | ClickGenerate
  | ClickTest
  | HealthSettled "health_data outcome"
  | GenerateSettled "generate_result outcome"
  | TestSettled "test_result outcome"
  | ErrorTimeout
  | EditTaskDescription jsstring
  | EditInputType jsstring
  | EditOutputType jsstring
  | EditOllamaModel jsstring
  | EditTestInput jsstring
  | EditExampleInput nat jsstring
  | EditExampleOutput nat jsstring

definition edit_example ::
  "nat \<Rightarrow> (example_item \<Rightarrow> example_item) \<Rightarrow> page \<Rightarrow> page" where
  "edit_example k f s =
     (if k < length (examples_container s)
      then s\<lparr>examples_container := (examples_container s)[k := f (examples_container s ! k)]\<rparr>
      else s)"

fun handle :: "event \<Rightarrow> page \<Rightarrow> page" where
  "handle ClickAddExample s = addExample s"
| "handle (ClickRemoveExample i) s = removeExample i s"
| "handle ClickGenerate s = (if generate_btn_disabled s then s else generatePipeline_begin s)"
| "handle ClickTest s = (if test_btn_disabled s then s else testPipeline_begin s)"
| "handle (HealthSettled out) s =
     (if health_in_flight s = 0 then s else checkHealth_resume out s)"
| "handle (GenerateSettled out) s =
     (if generate_in_flight s = 0 then s else generatePipeline_resume out s)"
| "handle (TestSettled out) s =
     (if test_in_flight s = 0 then s else testPipeline_resume out s)"
| "handle ErrorTimeout s = (if error_timers s = 0 then s else showError_timeout s)"
| "handle (EditTaskDescription v) s = s\<lparr>task_description_value := v\<rparr>"
| "handle (EditInputType v) s = s\<lparr>input_type_value := v\<rparr>"
| "handle (EditOutputType v) s = s\<lparr>output_type_value := v\<rparr>"
| "handle (EditOllamaModel v) s = s\<lparr>ollama_model_value := v\<rparr>"
| "handle (EditTestInput v) s = s\<lparr>test_input_value := v\<rparr>"
| "handle (EditExampleInput k v) s = edit_example k (\<lambda>e. e\<lparr>example_input := v\<rparr>) s"
| "handle (EditExampleOutput k v) s = edit_example k (\<lambda>e. e\<lparr>example_output := v\<rparr>) s"

fun run :: "event list \<Rightarrow> page \<Rightarrow> page" where
  "run [] s = s"
| "run (e # es) s = run es (handle e s)"

text \<open>
  The script as it is loaded: the globals as declared, nothing requested, no timer set.
  The \<open>DOMContentLoaded\<close> listener then checks the health and adds the first example.
\<close>

definition script_loaded :: "page \<Rightarrow> bool" where
  "script_loaded s \<longleftrightarrow>
     exampleCount s = 0 \<and> sessionId s = None \<and> sent s = [] \<and> error_timers s = 0 \<and>
     health_in_flight s = 0 \<and> generate_in_flight s = 0 \<and> test_in_flight s = 0"

definition DOMContentLoaded :: "page \<Rightarrow> page" where
  "DOMContentLoaded s = addExample (checkHealth_begin s)"

text \<open>
  A page with every field empty and nothing in flight, as the concrete starting point of
  the worked instances below.
\<close>

definition blank_page :: page where
  "blank_page =
     \<lparr>exampleCount = 0, sessionId = None, examples_container = [],
      task_description_value = [], input_type_value = [], output_type_value = [],
      ollama_model_value = [], test_input_value = [],
      health_status_textContent = [], health_status_className = [],
      generate_btn_disabled = False, test_btn_disabled = False,
      loading_display = [], results_section_display = [],
      test_section_display = [], test_output_display = [],
      status_message_className = [], status_message_textContent = [],
      pipeline_code_textContent = [], synthetic_prompt_textContent = [],
      download_links = [], test_result_textContent = [],
      error_timers = 0, sent = [],
      health_in_flight = 0, generate_in_flight = 0, test_in_flight = 0\<rparr>"

text \<open>
  The spec's scenario: on a freshly loaded page the user enters the task "Summarize text"
  and the example "Hello world" / "Greeting".
\<close>

definition edit_events :: "event list" where
  "edit_events =
     [EditTaskDescription (js ''Summarize text''),
      EditExampleInput 0 (js ''Hello world''),
      EditExampleOutput 0 (js ''Greeting'')]"

definition summarize_page :: page where
  "summarize_page = run edit_events (DOMContentLoaded blank_page)"

text \<open>
  The session continued: the user clicks Generate, the backend answers with a success
  status and a session identifier, and the user types a test input. And the same form
  with Generate clicked twice before anything settles.
\<close>

definition sample_result :: generate_result where
  "sample_result =
     \<lparr>error = None, result_sessionId = js ''abc'', optimizationSuccess = True,
      optimizationMessage = js ''Optimized'', pipelineCode = js ''import dspy'',
      syntheticPrompt = js ''Generate examples'',
      filesGenerated = [js ''pipeline.py'', js ''task_config.json'']\<rparr>"

definition session_events :: "event list" where
  "session_events =
     edit_events @
     [ClickGenerate, GenerateSettled (Reply True sample_result), EditTestInput (js '' 2+2 '')]"

definition generated_page :: page where
  "generated_page = run session_events (DOMContentLoaded blank_page)"

definition double_click_events :: "event list" where
  "double_click_events = edit_events @ [ClickGenerate, ClickGenerate]"

text \<open>
  The same form submitted, and the backend answering with a failure status and a body
  whose \<open>error\<close> field is the empty string.
\<close>

definition empty_error_result :: generate_result where
  "empty_error_result =
     \<lparr>error = Some [], result_sessionId = [], optimizationSuccess = False,
      optimizationMessage = [], pipelineCode = [], syntheticPrompt = [],
      filesGenerated = []\<rparr>"

definition empty_error_events :: "event list" where
  "empty_error_events =
     edit_events @ [ClickGenerate, GenerateSettled (Reply False empty_error_result)]"

text \<open>A page with a test input and no generation before it.\<close>

definition no_session_page :: page where
  "no_session_page = blank_page\<lparr>test_input_value := js ''2+2''\<rparr>"

text \<open>
  The invariant behind the concurrency guard: per control at most one request is in
  flight, and while one is in flight the control is disabled.
\<close>

definition guarded :: "page \<Rightarrow> bool" where
  "guarded s \<longleftrightarrow>
     generate_in_flight s \<le> 1 \<and> (generate_in_flight s = 1 \<longrightarrow> generate_btn_disabled s) \<and>
     test_in_flight s \<le> 1 \<and> (test_in_flight s = 1 \<longrightarrow> test_btn_disabled s)"

text \<open>
  The entries are labelled by position: the k-th entry (from 1) reads "Example k". A page
  is numbered when, in addition, its counter is the number of entries and the entries
  carry the identifiers 1, 2, ... in order.
\<close>

definition labelled_by_position :: "example_item list \<Rightarrow> bool" where
  "labelled_by_position es \<longleftrightarrow>
     map example_number es = map (\<lambda>k. example_label (k + 1)) [0..<length es]"

definition numbered :: "page \<Rightarrow> bool" where
  "numbered t \<longleftrightarrow>
     exampleCount t = length (examples_container t) \<and>
     map exampleId (examples_container t) = [1..<length (examples_container t) + 1] \<and>
     labelled_by_position (examples_container t)"

section \<open>Example list management\<close>

lemma length_renumber: "length (renumber k es) = length es"
  by (induction es arbitrary: k) simp_all

lemma nth_renumber:
  "j < length es \<Longrightarrow>
     renumber k es ! j = (es ! j)\<lparr>example_number := example_label (k + j + 1)\<rparr>"
proof (induction es arbitrary: k j)
  case Nil
  then show ?case by simp
next
  case (Cons e es)
  then show ?case by (cases j) simp_all
qed

lemma remove_first_absent:
  "\<forall>e \<in> set es. exampleId e \<noteq> i \<Longrightarrow> remove_first i es = es"
  by (induction es) simp_all

lemma examples_container_removeExample:
  "examples_container (removeExample i s) = renumber 0 (remove_first i (examples_container s))"
  by (simp add: removeExample_def)

text \<open>
  C1. The claim: after any sequence of add and remove operations every entry is labelled
  by its 1-based position, and \<open>addExample\<close> labels the new entry by its position rather
  than by its identifier. The code labels the new entry \<open>Example ${exampleCount}\<close>, the
  identifier. On a freshly loaded page (one example, identifier 1), removing that example
  and adding another leaves a single entry, at position 1, with identifier 2 and the label
  "Example 2".
\<close>

theorem addExample_labels_by_identifier:
  "examples_container (run [ClickRemoveExample 1, ClickAddExample] (DOMContentLoaded blank_page)) =
     [\<lparr>exampleId = 2, example_number = js ''Example 2'',
       example_input = [], example_output = []\<rparr>] \<and>
   js ''Example 2'' \<noteq> example_label 1"
  by (simp add: DOMContentLoaded_def checkHealth_begin_def fetch_def addExample_def
      removeExample_def blank_page_def new_example_def example_label_def digits.simps js_def)

text \<open>
  What does hold: \<open>removeExample\<close> always leaves the entries labelled by position, and
  so does \<open>addExample\<close> as long as nothing has been removed. Hence adding \<open>n\<close> examples
  to an empty list and then removing any \<open>k\<close> distinct ones leaves \<open>n - k\<close> entries
  labelled 1 to \<open>n - k\<close>. Only an addition after a removal breaks the numbering.
\<close>

lemma labelled_by_position_renumber: "labelled_by_position (renumber 0 es)"
  unfolding labelled_by_position_def
  by (rule nth_equalityI) (simp_all add: length_renumber nth_renumber)

lemma removeExample_relabels: "labelled_by_position (examples_container (removeExample i s))"
  by (simp add: examples_container_removeExample labelled_by_position_renumber)

lemma exampleId_renumber: "map exampleId (renumber k es) = map exampleId es"
  by (induction es arbitrary: k) simp_all

lemma exampleId_remove_first: "map exampleId (remove_first i es) = remove1 i (map exampleId es)"
  by (induction es) auto

lemma exampleId_removeExample:
  "map exampleId (examples_container (removeExample i s)) =
     remove1 i (map exampleId (examples_container s))"
  by (simp add: examples_container_removeExample exampleId_renumber exampleId_remove_first)

lemma exampleId_fold_removeExample:
  "map exampleId (examples_container (fold removeExample ids s)) =
     fold remove1 ids (map exampleId (examples_container s))"
  by (induction ids arbitrary: s) (simp_all add: exampleId_removeExample)

lemma length_fold_remove1:
  "distinct ids \<Longrightarrow> set ids \<subseteq> set xs \<Longrightarrow>
     length (fold remove1 ids xs) = length xs - length ids"
proof (induction ids arbitrary: xs)
  case Nil
  then show ?case by simp
next
  case (Cons i ids)
  have "set ids \<subseteq> set (remove1 i xs)"
  proof
    fix x
    assume x: "x \<in> set ids"
    with Cons.prems have "x \<noteq> i" and "x \<in> set xs"
      by auto
    then show "x \<in> set (remove1 i xs)"
      by (simp add: in_set_remove1)
  qed
  with Cons show ?case
    by (simp add: length_remove1)
qed

lemma numbered_addExample: "numbered t \<Longrightarrow> numbered (addExample t)"
  by (simp add: numbered_def addExample_def Let_def new_example_def labelled_by_position_def)

lemma length_addExample:
  "length (examples_container (addExample t)) = length (examples_container t) + 1"
  by (simp add: addExample_def Let_def)

lemma addExample_n:
  "exampleCount s = 0 \<Longrightarrow> examples_container s = [] \<Longrightarrow>
     numbered ((addExample ^^ n) s) \<and> length (examples_container ((addExample ^^ n) s)) = n"
proof (induction n)
  case 0
  then show ?case by (simp add: numbered_def labelled_by_position_def)
next
  case (Suc n)
  then show ?case
    by (simp add: numbered_addExample length_addExample)
qed

lemma add_then_remove:
  assumes "exampleCount s = 0" and "examples_container s = []"
    and "distinct ids" and "set ids \<subseteq> {1..n}"
  shows "length (examples_container (fold removeExample ids ((addExample ^^ n) s))) =
           n - length ids \<and>
         labelled_by_position (examples_container (fold removeExample ids ((addExample ^^ n) s)))"
proof -
  let ?p = "(addExample ^^ n) s"
  from assms(1,2) have ids: "map exampleId (examples_container ?p) = [1..<n + 1]"
    and lab: "labelled_by_position (examples_container ?p)"
    using addExample_n [of s n] by (simp_all add: numbered_def)
  from assms(4) have "set ids \<subseteq> set [1..<n + 1]"
    by auto
  with assms(3) have "length (fold remove1 ids [1..<n + 1]) = length [1..<n + 1] - length ids"
    by (rule length_fold_remove1)
  then have len: "length (examples_container (fold removeExample ids ?p)) = n - length ids"
    using exampleId_fold_removeExample [of ids ?p] ids
    by (metis length_map length_upt add_diff_cancel_right')
  have "labelled_by_position (examples_container (fold removeExample ids ?p))"
  proof (cases ids rule: rev_cases)
    case Nil
    with lab show ?thesis by simp
  next
    case (snoc js j)
    then show ?thesis by (simp add: removeExample_relabels)
  qed
  with len show ?thesis by simp
qed

text \<open>
  C10. When no entry carries the identifier, \<open>removeExample\<close> deletes nothing: the list
  keeps its length, every entry keeps its identifier and the values of its two textareas,
  every entry is labelled by its 1-based position, and nothing else on the page changes.
\<close>

theorem removeExample_absent_id:
  assumes "\<forall>e \<in> set (examples_container s). exampleId e \<noteq> i"
  shows "length (examples_container (removeExample i s)) = length (examples_container s) \<and>
         (\<forall>k < length (examples_container s).
            exampleId (examples_container (removeExample i s) ! k) =
              exampleId (examples_container s ! k) \<and>
            example_input (examples_container (removeExample i s) ! k) =
              example_input (examples_container s ! k) \<and>
            example_output (examples_container (removeExample i s) ! k) =
              example_output (examples_container s ! k) \<and>
            example_number (examples_container (removeExample i s) ! k) =
              example_label (k + 1)) \<and>
         (removeExample i s)\<lparr>examples_container := examples_container s\<rparr> = s"
  using assms
  by (simp add: examples_container_removeExample remove_first_absent length_renumber
      nth_renumber removeExample_def)

theorem removeExample_absent_id_witness:
  "7 \<notin> set (map exampleId (examples_container (addExample (addExample blank_page)))) \<and>
   examples_container (removeExample 7 (addExample (addExample blank_page))) =
     [\<lparr>exampleId = 1, example_number = js ''Example 1'',
       example_input = [], example_output = []\<rparr>,
      \<lparr>exampleId = 2, example_number = js ''Example 2'',
       example_input = [], example_output = []\<rparr>]"
  using removeExample_absent_id [of "addExample (addExample blank_page)" 7]
  by (simp add: addExample_def removeExample_def blank_page_def new_example_def
      example_label_def digits.simps js_def)

section \<open>Displaying a generation result\<close>

lemma foldl_download_links:
  "foldl (\<lambda>t filename. t\<lparr>download_links := download_links t @ [make_link filename]\<rparr>) s fs =
     s\<lparr>download_links := download_links s @ map make_link fs\<rparr>"
  by (induction fs arbitrary: s) simp_all

lemma download_links_displayResults:
  "download_links (displayResults result s) = map make_link (filesGenerated result)"
  by (simp add: displayResults_def Let_def foldl_download_links)

lemma status_displayResults:
  "status_message_className (displayResults result s) =
     (if optimizationSuccess result then js ''message success'' else js ''message warning'')"
  "status_message_textContent (displayResults result s) =
     (if optimizationSuccess result then check_mark else warning_mark) @ optimizationMessage result"
  "test_section_display (displayResults result s) =
     (if optimizationSuccess result then js ''block'' else js ''none'')"
  "results_section_display (displayResults result s) = js ''block''"
  by (simp_all add: displayResults_def Let_def foldl_download_links)

lemma unchanged_displayResults:
  "sessionId (displayResults result s) = sessionId s"
  "generate_in_flight (displayResults result s) = generate_in_flight s"
  "test_in_flight (displayResults result s) = test_in_flight s"
  "generate_btn_disabled (displayResults result s) = generate_btn_disabled s"
  "test_btn_disabled (displayResults result s) = test_btn_disabled s"
  "sent (displayResults result s) = sent s"
  by (simp_all add: displayResults_def Let_def foldl_download_links)

lemma form_displayResults:
  "task_description_value (displayResults result s) = task_description_value s"
  "examples_container (displayResults result s) = examples_container s"
  by (simp_all add: displayResults_def Let_def foldl_download_links)

text \<open>
  C7. \<open>displayResults\<close> empties the list of download links and then appends one link
  per entry of \<open>filesGenerated\<close>, in the order of the list; the link of a file name
  points to \<open>/api/download/\<close> followed by that name. Whatever links the page showed
  before are gone.
\<close>

theorem displayResults_download_links:
  "download_links (displayResults result s) = map make_link (filesGenerated result) \<and>
   length (download_links (displayResults result s)) = length (filesGenerated result) \<and>
   map href (download_links (displayResults result s)) =
     map (\<lambda>filename. js ''/api/download/'' @ filename) (filesGenerated result)"
  by (simp add: download_links_displayResults make_link_def comp_def)

text \<open>
  C3. With \<open>optimizationSuccess\<close> true, \<open>displayResults\<close> gives the status message
  the class "message success" and sets the test section's display to "block"; with
  \<open>optimizationSuccess\<close> false the class is "message warning" and the display "none".
  The same holds once \<open>generatePipeline\<close> has finished on a successful response. The
  two classes differ, and so do the two display values.
\<close>

theorem displayResults_optimization_status:
  "status_message_className (displayResults result s) =
     (if optimizationSuccess result then js ''message success'' else js ''message warning'') \<and>
   test_section_display (displayResults result s) =
     (if optimizationSuccess result then js ''block'' else js ''none'') \<and>
   status_message_className (generatePipeline_resume (Reply True result) s) =
     (if optimizationSuccess result then js ''message success'' else js ''message warning'') \<and>
   test_section_display (generatePipeline_resume (Reply True result) s) =
     (if optimizationSuccess result then js ''block'' else js ''none'') \<and>
   js ''message success'' \<noteq> js ''message warning'' \<and> js ''block'' \<noteq> js ''none''"
  by (simp add: status_displayResults generatePipeline_resume_def generatePipeline_try_def Let_def)
    (simp add: js_def)

section \<open>Validation before a request\<close>

lemma trim_Nil: "trim [] = []"
  by (simp add: trim_def)

lemma textarea_values_found:
  assumes "trim (textarea_value example_input doc i) \<noteq> []"
    and "trim (textarea_value example_output doc i) \<noteq> []"
  shows "\<exists>e \<in> set doc. trim (example_input e) \<noteq> [] \<and> trim (example_output e) \<noteq> []"
proof (cases "find (\<lambda>e. exampleId e = i) doc")
  case None
  with assms show ?thesis by (simp add: textarea_value_def trim_Nil)
next
  case (Some e)
  then have "e \<in> set doc"
    by (auto simp: find_Some_iff)
  with Some assms show ?thesis
    by (auto simp: textarea_value_def)
qed

lemma collect_examples_nonempty:
  "collect_examples doc items \<noteq> [] \<Longrightarrow>
     \<exists>e \<in> set doc. trim (example_input e) \<noteq> [] \<and> trim (example_output e) \<noteq> []"
proof (induction items)
  case Nil
  then show ?case by simp
next
  case (Cons item rest)
  show ?case
  proof (cases "truthy (trim (textarea_value example_input doc (exampleId item))) \<and>
                truthy (trim (textarea_value example_output doc (exampleId item)))")
    case True
    then show ?thesis
      using textarea_values_found [of doc "exampleId item"] by (simp add: truthy_def)
  next
    case False
    with Cons show ?thesis by (simp add: Let_def)
  qed
qed

lemma sent_showError: "sent (showError m s) = sent s"
  by (simp add: showError_def)

lemma sent_fetch: "sent (fetch req s) = sent s @ [req]"
  by (simp add: fetch_def Let_def split: request.splits)

lemma form_fetch:
  "task_description_value (fetch req s) = task_description_value s"
  "examples_container (fetch req s) = examples_container s"
  by (simp_all add: fetch_def Let_def split: request.splits)

lemma guarded_fetch:
  "generate_in_flight (fetch req s) =
     (case req of PostGenerate data \<Rightarrow> generate_in_flight s + 1 | _ \<Rightarrow> generate_in_flight s)"
  "test_in_flight (fetch req s) =
     (case req of PostTest sid t \<Rightarrow> test_in_flight s + 1 | _ \<Rightarrow> test_in_flight s)"
  "generate_btn_disabled (fetch req s) = generate_btn_disabled s"
  "test_btn_disabled (fetch req s) = test_btn_disabled s"
  by (simp_all add: fetch_def Let_def split: request.splits)

lemma generatePipeline_begin_cases:
  "generatePipeline_begin s =
     (if trim (task_description_value s) = []
      then showError (js ''Please provide a task description'') s
      else if collect_examples (examples_container s) (examples_container s) = []
      then showError (js ''Please provide at least one example'') s
      else fetch (PostGenerate (collectFormData s)) (show_loading s))"
  by (simp add: generatePipeline_begin_def validateFormData_def collectFormData_def Let_def
      truthy_def)

lemma testPipeline_begin_cases:
  "testPipeline_begin s =
     (if trim (test_input_value s) = [] then showError (js ''Please provide test input'') s
      else case sessionId s of
             None \<Rightarrow> showError (js ''No pipeline session found'') s
           | Some sid \<Rightarrow>
               if sid = [] then showError (js ''No pipeline session found'') s
               else fetch (PostTest sid (trim (test_input_value s))) (s\<lparr>test_btn_disabled := True\<rparr>))"
  by (simp add: testPipeline_begin_def Let_def truthy_def split: option.splits)

text \<open>
  C2. \<open>generatePipeline\<close> issues a request only if the trimmed task description is not
  empty and some example has a non-empty trimmed input and a non-empty trimmed output.
  When the description is empty after trimming, or no example has both, no request is
  issued and none is added to those in flight; the results area is shown with an
  error-styled status message naming what is missing.
\<close>

theorem generatePipeline_begin_validation:
  "(sent (generatePipeline_begin s) \<noteq> sent s \<longrightarrow>
      trim (task_description_value s) \<noteq> [] \<and>
      (\<exists>e \<in> set (examples_container s).
         trim (example_input e) \<noteq> [] \<and> trim (example_output e) \<noteq> [])) \<and>
   (trim (task_description_value s) = [] \<or>
    \<not> (\<exists>e \<in> set (examples_container s).
         trim (example_input e) \<noteq> [] \<and> trim (example_output e) \<noteq> []) \<longrightarrow>
      sent (generatePipeline_begin s) = sent s \<and>
      generate_in_flight (generatePipeline_begin s) = generate_in_flight s \<and>
      results_section_display (generatePipeline_begin s) = js ''block'' \<and>
      status_message_className (generatePipeline_begin s) = js ''message error'' \<and>
      status_message_textContent (generatePipeline_begin s) =
        error_mark @
          (if trim (task_description_value s) = []
           then js ''Please provide a task description''
           else js ''Please provide at least one example''))"
proof -
  have "collect_examples (examples_container s) (examples_container s) = []"
    if "\<not> (\<exists>e \<in> set (examples_container s).
         trim (example_input e) \<noteq> [] \<and> trim (example_output e) \<noteq> [])"
    using that collect_examples_nonempty [of "examples_container s" "examples_container s"]
    by blast
  then show ?thesis
    by (auto simp: generatePipeline_begin_cases showError_def sent_fetch)
qed

section \<open>The session identifier\<close>

lemma sessionId_showError: "sessionId (showError m s) = sessionId s"
  by (simp add: showError_def)

lemma sessionId_fetch: "sessionId (fetch req s) = sessionId s"
  by (simp add: fetch_def Let_def split: request.splits)

lemma sessionId_generatePipeline_begin:
  "sessionId (generatePipeline_begin s) = sessionId s"
  by (simp add: generatePipeline_begin_def validateFormData_def Let_def sessionId_showError
      sessionId_fetch show_loading_def)

lemma sessionId_generatePipeline_resume:
  "sessionId (generatePipeline_resume out s) =
     (case out of
        Rejected message \<Rightarrow> sessionId s
      | Reply ok result \<Rightarrow> if ok then Some (result_sessionId result) else sessionId s)"
  by (simp add: generatePipeline_resume_def generatePipeline_try_def Let_def
      unchanged_displayResults sessionId_showError split: outcome.splits)

lemma sessionId_testPipeline_begin: "sessionId (testPipeline_begin s) = sessionId s"
  by (simp add: testPipeline_begin_cases sessionId_showError sessionId_fetch split: option.splits)

lemma sessionId_testPipeline_resume: "sessionId (testPipeline_resume out s) = sessionId s"
  by (simp add: testPipeline_resume_def testPipeline_try_def Let_def showError_def
      split: outcome.splits option.splits)

lemma sessionId_checkHealth_resume: "sessionId (checkHealth_resume out s) = sessionId s"
  by (simp add: checkHealth_resume_def Let_def split: outcome.splits)

lemma sessionId_misc:
  "sessionId (addExample s) = sessionId s"
  "sessionId (removeExample i s) = sessionId s"
  "sessionId (showError_timeout s) = sessionId s"
  "sessionId (edit_example k f s) = sessionId s"
  by (simp_all add: addExample_def removeExample_def showError_timeout_def edit_example_def Let_def)

lemma sessionId_DOMContentLoaded: "sessionId (DOMContentLoaded s) = sessionId s"
  by (simp add: DOMContentLoaded_def checkHealth_begin_def sessionId_fetch sessionId_misc)

lemma sessionId_handle:
  "sessionId (handle e s) = sessionId s \<or>
   (\<exists>result. e = GenerateSettled (Reply True result) \<and>
      sessionId (handle e s) = Some (result_sessionId result))"
proof (cases e)
  case (GenerateSettled out)
  then show ?thesis
    by (cases out) (auto simp: sessionId_generatePipeline_resume)
qed (simp_all add: sessionId_generatePipeline_begin sessionId_testPipeline_begin
      sessionId_testPipeline_resume sessionId_checkHealth_resume sessionId_misc)

lemma sessionId_run:
  "sessionId (run evs s) = Some sid \<Longrightarrow>
     sessionId s = Some sid \<or>
     (\<exists>result. GenerateSettled (Reply True result) \<in> set evs \<and> result_sessionId result = sid)"
proof (induction evs arbitrary: s)
  case Nil
  then show ?case by simp
next
  case (Cons e evs)
  from Cons.prems have "sessionId (run evs (handle e s)) = Some sid" by simp
  from Cons.IH [OF this] sessionId_handle [of e s] show ?case
    by auto
qed

text \<open>
  C4. A response with a success status and a parsed body overwrites \<open>sessionId\<close> with the
  body's \<open>sessionId\<close>, whatever was stored before. A response with a non-success status,
  a rejected promise (network failure, body that is not JSON), and the part of
  \<open>generatePipeline\<close> before the request (which includes a failed validation) leave
  \<open>sessionId\<close> as it was.
\<close>

theorem generatePipeline_sessionId:
  "sessionId (generatePipeline_resume (Reply True result) s) = Some (result_sessionId result) \<and>
   sessionId (generatePipeline_resume (Reply False result) s) = sessionId s \<and>
   sessionId (generatePipeline_resume (Rejected message) s) = sessionId s \<and>
   sessionId (generatePipeline_begin s) = sessionId s"
  by (simp add: generatePipeline_resume_def generatePipeline_try_def Let_def
      unchanged_displayResults sessionId_showError sessionId_generatePipeline_begin)

text \<open>
  C5. \<open>testPipeline\<close> issues a request only if the trimmed test input is not empty and
  a non-empty session identifier is stored. When the trimmed input is empty or no
  identifier is stored, no request is issued and the results area shows an error-styled
  message naming what is missing. On a page that started from the loaded script, a test
  request is issued only after some generation has settled with a success status, and
  the stored identifier is the one such a response carried.
\<close>

theorem testPipeline_begin_preconditions:
  "(sent (testPipeline_begin s) \<noteq> sent s \<longrightarrow>
      trim (test_input_value s) \<noteq> [] \<and> (\<exists>sid. sessionId s = Some sid \<and> sid \<noteq> [])) \<and>
   (trim (test_input_value s) = [] \<or> sessionId s = None \<longrightarrow>
      sent (testPipeline_begin s) = sent s \<and>
      test_in_flight (testPipeline_begin s) = test_in_flight s \<and>
      results_section_display (testPipeline_begin s) = js ''block'' \<and>
      status_message_className (testPipeline_begin s) = js ''message error'' \<and>
      status_message_textContent (testPipeline_begin s) =
        error_mark @
          (if trim (test_input_value s) = [] then js ''Please provide test input''
           else js ''No pipeline session found'')) \<and>
   (script_loaded p \<and>
    sent (testPipeline_begin (run evs (DOMContentLoaded p))) \<noteq> sent (run evs (DOMContentLoaded p)) \<longrightarrow>
      (\<exists>result. GenerateSettled (Reply True result) \<in> set evs \<and>
         sessionId (run evs (DOMContentLoaded p)) = Some (result_sessionId result)))"
proof -
  have local: "(sent (testPipeline_begin s) \<noteq> sent s \<longrightarrow>
      trim (test_input_value s) \<noteq> [] \<and> (\<exists>sid. sessionId s = Some sid \<and> sid \<noteq> [])) \<and>
   (trim (test_input_value s) = [] \<or> sessionId s = None \<longrightarrow>
      sent (testPipeline_begin s) = sent s \<and>
      test_in_flight (testPipeline_begin s) = test_in_flight s \<and>
      results_section_display (testPipeline_begin s) = js ''block'' \<and>
      status_message_className (testPipeline_begin s) = js ''message error'' \<and>
      status_message_textContent (testPipeline_begin s) =
        error_mark @
          (if trim (test_input_value s) = [] then js ''Please provide test input''
           else js ''No pipeline session found''))" for s
    by (auto simp: testPipeline_begin_cases showError_def sent_fetch split: option.splits)
  have prior: "\<exists>result. GenerateSettled (Reply True result) \<in> set evs \<and>
         sessionId (run evs (DOMContentLoaded p)) = Some (result_sessionId result)"
    if "script_loaded p"
      and "sent (testPipeline_begin (run evs (DOMContentLoaded p))) \<noteq>
           sent (run evs (DOMContentLoaded p))"
  proof -
    from that(2) local [of "run evs (DOMContentLoaded p)"]
    obtain sid where sid: "sessionId (run evs (DOMContentLoaded p)) = Some sid"
      by blast
    from that(1) have "sessionId (DOMContentLoaded p) = None"
      by (simp add: sessionId_DOMContentLoaded script_loaded_def)
    with sessionId_run [OF sid] sid show ?thesis
      by auto
  qed
  from local [of s] prior show ?thesis
    by blast
qed

section \<open>Error responses\<close>

text \<open>
  C6, as amended. For a response with a non-success status whose body parses as JSON
  (\<open>Reply False\<close>), \<open>generatePipeline\<close> shows an error-styled status message whose
  text is the error marker followed by the body's \<open>error\<close> field when that field is
  present and not the empty string, and followed by "Failed to generate pipeline" when
  the field is absent or empty. A body that does not parse makes \<open>response.json()\<close>
  reject before the status is looked at; that outcome is \<open>Rejected\<close> and this
  statement says nothing about it.
\<close>

theorem generatePipeline_error_message:
  "status_message_className (generatePipeline_resume (Reply False result) s) = js ''message error'' \<and>
   status_message_textContent (generatePipeline_resume (Reply False result) s) =
     error_mark @
       (case error result of
          Some e \<Rightarrow> if e \<noteq> [] then e else js ''Failed to generate pipeline''
        | None \<Rightarrow> js ''Failed to generate pipeline'')"
  by (simp add: generatePipeline_resume_def generatePipeline_try_def Let_def showError_def
      or_else_def truthy_def split: option.splits)

section \<open>Health check\<close>

text \<open>
  C8. When the health response arrives, the indicator gets the class
  "health-status healthy" exactly when \<open>status\<close> is "healthy" and \<open>ollama\<close> is
  "running", with the text "Ollama is running" after the check mark; in every other case
  it gets the class "health-status unhealthy" and the text that tells the user to run
  \<open>ollama serve\<close>. When the request fails the class is "health-status unhealthy" and
  the text is "Cannot connect to backend" after the error marker, which differs from the
  text of the other negative case.
\<close>

theorem checkHealth_indicator:
  "(health_status_className (checkHealth_resume (Reply ok data) s) = js ''health-status healthy''
      \<longleftrightarrow> status data = js ''healthy'' \<and> ollama data = js ''running'') \<and>
   (health_status_className (checkHealth_resume (Reply ok data) s) = js ''health-status unhealthy''
      \<longleftrightarrow> \<not> (status data = js ''healthy'' \<and> ollama data = js ''running'')) \<and>
   health_status_textContent (checkHealth_resume (Reply ok data) s) =
     (if status data = js ''healthy'' \<and> ollama data = js ''running''
      then check_mark @ js ''Ollama is running''
      else warning_mark @ js ''Ollama is not running - Run: ollama serve'') \<and>
   health_status_className (checkHealth_resume (Rejected message) s) = js ''health-status unhealthy'' \<and>
   health_status_textContent (checkHealth_resume (Rejected message) s) =
     error_mark @ js ''Cannot connect to backend'' \<and>
   error_mark @ js ''Cannot connect to backend'' \<noteq>
     warning_mark @ js ''Ollama is not running - Run: ollama serve''"
  by (simp add: checkHealth_resume_def Let_def)
    (simp add: js_def error_mark_def warning_mark_def)

section \<open>The concurrency guard\<close>

lemma guarded_showError: "guarded (showError m s) = guarded s"
  by (simp add: guarded_def showError_def)

lemma guarded_generatePipeline_begin:
  "guarded s \<Longrightarrow> \<not> generate_btn_disabled s \<Longrightarrow> guarded (generatePipeline_begin s)"
  by (auto simp: generatePipeline_begin_cases guarded_showError)
    (auto simp: guarded_def guarded_fetch show_loading_def)

lemma guarded_testPipeline_begin:
  "guarded s \<Longrightarrow> \<not> test_btn_disabled s \<Longrightarrow> guarded (testPipeline_begin s)"
  by (auto simp: testPipeline_begin_cases guarded_showError split: option.splits)
    (auto simp: guarded_def guarded_fetch)

lemma guarded_generatePipeline_resume:
  "guarded s \<Longrightarrow> generate_in_flight s \<noteq> 0 \<Longrightarrow> guarded (generatePipeline_resume out s)"
  by (cases out)
    (auto simp: guarded_def generatePipeline_resume_def generatePipeline_try_def Let_def
      unchanged_displayResults showError_def)

lemma guarded_testPipeline_resume:
  "guarded s \<Longrightarrow> test_in_flight s \<noteq> 0 \<Longrightarrow> guarded (testPipeline_resume out s)"
  by (cases out)
    (auto simp: guarded_def testPipeline_resume_def testPipeline_try_def Let_def showError_def
      split: option.splits)

lemma guarded_misc:
  "guarded (addExample s) = guarded s"
  "guarded (removeExample i s) = guarded s"
  "guarded (showError_timeout s) = guarded s"
  "guarded (edit_example k f s) = guarded s"
  "guarded (checkHealth_resume h s) = guarded s"
  "guarded (checkHealth_begin s) = guarded s"
  by (simp_all add: guarded_def addExample_def removeExample_def showError_timeout_def
      edit_example_def checkHealth_resume_def checkHealth_begin_def guarded_fetch Let_def
      split: outcome.splits)

lemma guarded_edit:
  "guarded (s\<lparr>task_description_value := v\<rparr>) = guarded s"
  "guarded (s\<lparr>input_type_value := v\<rparr>) = guarded s"
  "guarded (s\<lparr>output_type_value := v\<rparr>) = guarded s"
  "guarded (s\<lparr>ollama_model_value := v\<rparr>) = guarded s"
  "guarded (s\<lparr>test_input_value := v\<rparr>) = guarded s"
  by (simp_all add: guarded_def)

lemma guarded_handle: "guarded s \<Longrightarrow> guarded (handle e s)"
  by (cases e)
    (simp_all add: guarded_misc guarded_edit guarded_generatePipeline_begin
      guarded_testPipeline_begin guarded_generatePipeline_resume guarded_testPipeline_resume)

lemma guarded_run: "guarded s \<Longrightarrow> guarded (run evs s)"
  by (induction evs arbitrary: s) (simp_all add: guarded_handle)

lemma guarded_DOMContentLoaded: "script_loaded p \<Longrightarrow> guarded (DOMContentLoaded p)"
  by (simp add: DOMContentLoaded_def guarded_misc) (simp add: guarded_def script_loaded_def)

lemma disabled_after_resume:
  "\<not> generate_btn_disabled (generatePipeline_resume gen_out s)"
  "\<not> test_btn_disabled (testPipeline_resume test_out s)"
  by (simp_all add: generatePipeline_resume_def testPipeline_resume_def Let_def)

text \<open>
  C9. When validation passes, \<open>generatePipeline\<close> issues its request from a page on which
  the Generate button is already disabled; when its preconditions hold, \<open>testPipeline\<close>
  does the same with the Test button. However the request settles (success, failure
  status, rejected promise), the button is enabled again. On every page reached from the
  loaded script by any sequence of events, each of the two controls has at most one
  request in flight, and is disabled while it has one.
\<close>

theorem request_in_flight_guard:
  "(fst (validateFormData (collectFormData s) s) \<longrightarrow>
      generatePipeline_begin s = fetch (PostGenerate (collectFormData s)) (show_loading s) \<and>
      generate_btn_disabled (show_loading s) \<and>
      generate_btn_disabled (generatePipeline_begin s)) \<and>
   \<not> generate_btn_disabled (generatePipeline_resume gen_out s) \<and>
   (trim (test_input_value s) \<noteq> [] \<and> sessionId s = Some sid \<and> sid \<noteq> [] \<longrightarrow>
      testPipeline_begin s =
        fetch (PostTest sid (trim (test_input_value s))) (s\<lparr>test_btn_disabled := True\<rparr>) \<and>
      test_btn_disabled (testPipeline_begin s)) \<and>
   \<not> test_btn_disabled (testPipeline_resume test_out s) \<and>
   (script_loaded p \<longrightarrow>
      generate_in_flight (run evs (DOMContentLoaded p)) \<le> 1 \<and>
      (generate_in_flight (run evs (DOMContentLoaded p)) = 1 \<longrightarrow>
         generate_btn_disabled (run evs (DOMContentLoaded p))) \<and>
      test_in_flight (run evs (DOMContentLoaded p)) \<le> 1 \<and>
      (test_in_flight (run evs (DOMContentLoaded p)) = 1 \<longrightarrow>
         test_btn_disabled (run evs (DOMContentLoaded p))))"
proof -
  have gen: "generatePipeline_begin s = fetch (PostGenerate (collectFormData s)) (show_loading s) \<and>
      generate_btn_disabled (show_loading s) \<and>
      generate_btn_disabled (generatePipeline_begin s)"
    if "fst (validateFormData (collectFormData s) s)"
    using that
    by (auto simp: generatePipeline_begin_def validateFormData_def Let_def guarded_fetch
        show_loading_def split: if_splits)
  have tst: "testPipeline_begin s =
        fetch (PostTest sid (trim (test_input_value s))) (s\<lparr>test_btn_disabled := True\<rparr>) \<and>
      test_btn_disabled (testPipeline_begin s)"
    if "trim (test_input_value s) \<noteq> [] \<and> sessionId s = Some sid \<and> sid \<noteq> []"
    using that by (simp add: testPipeline_begin_cases guarded_fetch)
  have inv: "guarded (run evs (DOMContentLoaded p))" if "script_loaded p"
    using that by (simp add: guarded_run guarded_DOMContentLoaded)
  from gen tst inv show ?thesis
    unfolding guarded_def using disabled_after_resume by blast
qed

section \<open>Worked instances\<close>

lemma js_Cons: "js (c # cs) \<noteq> []"
  by (simp add: js_def)

lemma trim_literals:
  "trim (js ''Summarize text'') = js ''Summarize text''"
  "trim (js ''Hello world'') = js ''Hello world''"
  "trim (js ''Greeting'') = js ''Greeting''"
  by (simp_all add: trim_def isWhiteSpace_def js_def)

lemma trim_2_plus_2: "trim (js '' 2+2 '') = js ''2+2''" "trim (js ''2+2'') = js ''2+2''"
  by (simp_all add: trim_def isWhiteSpace_def js_def)

lemma summarize_page_eq:
  "summarize_page = blank_page\<lparr>exampleCount := 1,
      examples_container := [\<lparr>exampleId = 1, example_number = js ''Example 1'',
         example_input = js ''Hello world'', example_output = js ''Greeting''\<rparr>],
      task_description_value := js ''Summarize text'',
      sent := [GetHealth], health_in_flight := 1\<rparr>"
  by (simp add: summarize_page_def edit_events_def DOMContentLoaded_def checkHealth_begin_def fetch_def
      addExample_def blank_page_def new_example_def example_label_def digits.simps js_def
      edit_example_def)

lemma summarize_page_fields:
  "task_description_value summarize_page = js ''Summarize text''"
  "examples_container summarize_page =
     [\<lparr>exampleId = 1, example_number = js ''Example 1'',
       example_input = js ''Hello world'', example_output = js ''Greeting''\<rparr>]"
  "test_btn_disabled summarize_page = False"
  "generate_btn_disabled summarize_page = False"
  "generate_in_flight summarize_page = 0"
  "test_in_flight summarize_page = 0"
  by (simp_all add: summarize_page_eq blank_page_def)

lemma sent_generatePipeline_begin_summarize_page:
  "sent (generatePipeline_begin summarize_page) =
     [GetHealth,
      PostGenerate
        \<lparr>taskDescription = js ''Summarize text'', inputType = [], outputType = [],
         ollamaModel = js ''llama3.2'',
         examples = [\<lparr>ex_input = js ''Hello world'', ex_output = js ''Greeting''\<rparr>]\<rparr>]"
  by (simp add: summarize_page_eq blank_page_def generatePipeline_begin_cases collectFormData_def
      textarea_value_def or_else_def truthy_def sent_fetch show_loading_def trim_literals
      trim_Nil js_Cons)

theorem generatePipeline_begin_validation_witness:
  "sent summarize_page = [GetHealth] \<and>
   sent (generatePipeline_begin summarize_page) =
     [GetHealth,
      PostGenerate
        \<lparr>taskDescription = js ''Summarize text'', inputType = [], outputType = [],
         ollamaModel = js ''llama3.2'',
         examples = [\<lparr>ex_input = js ''Hello world'', ex_output = js ''Greeting''\<rparr>]\<rparr>] \<and>
   trim (task_description_value summarize_page) \<noteq> [] \<and>
   (\<exists>e \<in> set (examples_container summarize_page).
      trim (example_input e) \<noteq> [] \<and> trim (example_output e) \<noteq> []) \<and>
   trim (task_description_value blank_page) = [] \<and>
   sent (generatePipeline_begin blank_page) = sent blank_page \<and>
   status_message_className (generatePipeline_begin blank_page) = js ''message error''"
proof -
  have a: "sent summarize_page = [GetHealth]"
    by (simp add: summarize_page_eq)
  note b = sent_generatePipeline_begin_summarize_page
  from a b have "sent (generatePipeline_begin summarize_page) \<noteq> sent summarize_page"
    by simp
  with generatePipeline_begin_validation [of summarize_page]
  have c: "trim (task_description_value summarize_page) \<noteq> [] \<and>
    (\<exists>e \<in> set (examples_container summarize_page).
      trim (example_input e) \<noteq> [] \<and> trim (example_output e) \<noteq> [])"
    by blast
  have d: "trim (task_description_value blank_page) = []"
    by (simp add: blank_page_def trim_Nil)
  with generatePipeline_begin_validation [of blank_page]
  have e: "sent (generatePipeline_begin blank_page) = sent blank_page \<and>
    status_message_className (generatePipeline_begin blank_page) = js ''message error''"
    by blast
  from a b c d e show ?thesis by blast
qed

lemma run_append: "run (xs @ ys) s = run ys (run xs s)"
  by (induction xs arbitrary: s) simp_all

lemma generated_page_run:
  "generated_page =
     run [ClickGenerate, GenerateSettled (Reply True sample_result), EditTestInput (js '' 2+2 '')]
       summarize_page"
  by (simp only: generated_page_def session_events_def summarize_page_def run_append)

lemma generatePipeline_begin_summarize_page:
  "generatePipeline_begin summarize_page =
     fetch (PostGenerate (collectFormData summarize_page)) (show_loading summarize_page)"
  by (simp add: summarize_page_eq blank_page_def generatePipeline_begin_cases collectFormData_def
      textarea_value_def truthy_def trim_literals js_Cons)

lemma generated_page_fields:
  "sessionId generated_page = Some (js ''abc'')"
  "test_input_value generated_page = js '' 2+2 ''"
  "task_description_value generated_page = js ''Summarize text''"
  "examples_container generated_page =
     [\<lparr>exampleId = 1, example_number = js ''Example 1'',
       example_input = js ''Hello world'', example_output = js ''Greeting''\<rparr>]"
  "test_btn_disabled generated_page = False"
  by (simp_all add: generated_page_run generatePipeline_begin_summarize_page guarded_fetch
      sessionId_generatePipeline_resume sample_result_def generatePipeline_resume_def
      generatePipeline_try_def unchanged_displayResults form_displayResults
      form_fetch show_loading_def summarize_page_fields Let_def)

theorem testPipeline_begin_preconditions_witness:
  "sent (testPipeline_begin generated_page) =
     sent generated_page @ [PostTest (js ''abc'') (js ''2+2'')] \<and>
   trim (test_input_value generated_page) \<noteq> [] \<and>
   sessionId generated_page = Some (js ''abc'') \<and>
   script_loaded blank_page \<and>
   GenerateSettled (Reply True sample_result) \<in> set session_events \<and>
   sessionId (run session_events (DOMContentLoaded blank_page)) =
     Some (result_sessionId sample_result) \<and>
   trim (test_input_value blank_page) = [] \<and>
   sent (testPipeline_begin blank_page) = sent blank_page \<and>
   status_message_textContent (testPipeline_begin blank_page) =
     error_mark @ js ''Please provide test input'' \<and>
   sessionId no_session_page = None \<and>
   sent (testPipeline_begin no_session_page) = sent no_session_page \<and>
   status_message_textContent (testPipeline_begin no_session_page) =
     error_mark @ js ''No pipeline session found''"
proof -
  have a: "sent (testPipeline_begin generated_page) =
     sent generated_page @ [PostTest (js ''abc'') (js ''2+2'')]"
    by (simp add: testPipeline_begin_cases generated_page_fields trim_2_plus_2 js_Cons sent_fetch)
  then have "sent (testPipeline_begin generated_page) \<noteq> sent generated_page"
    by simp
  with testPipeline_begin_preconditions [of generated_page]
  have b: "trim (test_input_value generated_page) \<noteq> []"
    by blast
  have c: "trim (test_input_value blank_page) = []"
    by (simp add: blank_page_def trim_Nil)
  with testPipeline_begin_preconditions [of blank_page]
  have d: "sent (testPipeline_begin blank_page) = sent blank_page \<and>
    status_message_textContent (testPipeline_begin blank_page) =
      error_mark @ js ''Please provide test input''"
    by simp
  have e: "sessionId no_session_page = None" "trim (test_input_value no_session_page) \<noteq> []"
    by (simp_all add: no_session_page_def blank_page_def trim_2_plus_2 js_Cons)
  with testPipeline_begin_preconditions [of no_session_page]
  have f: "sent (testPipeline_begin no_session_page) = sent no_session_page \<and>
    status_message_textContent (testPipeline_begin no_session_page) =
      error_mark @ js ''No pipeline session found''"
    by simp
  have g: "script_loaded blank_page"
    by (simp add: script_loaded_def blank_page_def)
  have h: "GenerateSettled (Reply True sample_result) \<in> set session_events"
    by (simp add: session_events_def)
  have i: "sessionId (run session_events (DOMContentLoaded blank_page)) =
     Some (result_sessionId sample_result)"
    using generated_page_fields(1) by (simp add: generated_page_def sample_result_def)
  from a b c d e f g h i show ?thesis
    by (simp add: generated_page_fields)
qed

lemma double_click_page:
  "run double_click_events (DOMContentLoaded blank_page) = generatePipeline_begin summarize_page"
proof -
  have "run double_click_events (DOMContentLoaded blank_page) =
      run [ClickGenerate, ClickGenerate] summarize_page"
    by (simp only: double_click_events_def summarize_page_def run_append)
  also have "\<dots> = handle ClickGenerate (generatePipeline_begin summarize_page)"
    by (simp add: summarize_page_fields)
  also have "\<dots> = generatePipeline_begin summarize_page"
    by (simp add: generatePipeline_begin_summarize_page guarded_fetch show_loading_def)
  finally show ?thesis .
qed

theorem request_in_flight_guard_witness:
  "fst (validateFormData (collectFormData generated_page) generated_page) \<and>
   generate_btn_disabled (generatePipeline_begin generated_page) \<and>
   trim (test_input_value generated_page) \<noteq> [] \<and>
   sessionId generated_page = Some (js ''abc'') \<and>
   test_btn_disabled (testPipeline_begin generated_page) \<and>
   \<not> generate_btn_disabled
       (generatePipeline_resume (Rejected (js ''Failed to fetch'')) generated_page) \<and>
   \<not> test_btn_disabled
       (testPipeline_resume (Rejected (js ''Failed to fetch'')) generated_page) \<and>
   script_loaded blank_page \<and>
   generate_in_flight (run double_click_events (DOMContentLoaded blank_page)) = 1 \<and>
   generate_btn_disabled (run double_click_events (DOMContentLoaded blank_page))"
proof -
  note inst = request_in_flight_guard [of generated_page "Rejected (js ''Failed to fetch'')"
      "js ''abc''" "Rejected (js ''Failed to fetch'')" blank_page double_click_events]
  have a: "fst (validateFormData (collectFormData generated_page) generated_page)"
    by (simp add: validateFormData_def collectFormData_def generated_page_fields
        textarea_value_def truthy_def trim_literals js_Cons)
  have b: "trim (test_input_value generated_page) \<noteq> []" "sessionId generated_page = Some (js ''abc'')"
    "js ''abc'' \<noteq> []"
    by (simp_all add: generated_page_fields trim_2_plus_2 js_Cons)
  have c: "script_loaded blank_page"
    by (simp add: script_loaded_def blank_page_def)
  have d: "generate_in_flight (run double_click_events (DOMContentLoaded blank_page)) = 1"
    by (simp add: double_click_page generatePipeline_begin_summarize_page guarded_fetch
        show_loading_def summarize_page_fields)
  from inst a b c d show ?thesis
    by blast
qed

lemma empty_error_page:
  "run empty_error_events (DOMContentLoaded blank_page) =
     generatePipeline_resume (Reply False empty_error_result) (generatePipeline_begin summarize_page)"
proof -
  have "run empty_error_events (DOMContentLoaded blank_page) =
      run [ClickGenerate, GenerateSettled (Reply False empty_error_result)] summarize_page"
    by (simp only: empty_error_events_def summarize_page_def run_append)
  also have "\<dots> =
      handle (GenerateSettled (Reply False empty_error_result)) (generatePipeline_begin summarize_page)"
    by (simp add: summarize_page_fields)
  also have "\<dots> =
      generatePipeline_resume (Reply False empty_error_result) (generatePipeline_begin summarize_page)"
    by (simp add: generatePipeline_begin_summarize_page guarded_fetch)
  finally show ?thesis .
qed

text \<open>
  C6, as stated, fails when the \<open>error\<close> field is present and is the empty string. The
  user submits the form, so one request is in flight, and the backend answers with a
  failure status and the body \<open>{error: ""}\<close>: the operand of \<open>||\<close> is falsy, so the
  status text is the marker followed by the generic message, not the marker followed by
  the (empty) field.
\<close>

theorem generatePipeline_empty_error_field:
  "generate_in_flight (generatePipeline_begin summarize_page) = 1 \<and>
   error empty_error_result = Some [] \<and>
   status_message_textContent (run empty_error_events (DOMContentLoaded blank_page)) =
     error_mark @ js ''Failed to generate pipeline'' \<and>
   error_mark @ js ''Failed to generate pipeline'' \<noteq> error_mark @ []"
proof -
  have a: "generate_in_flight (generatePipeline_begin summarize_page) = 1"
    by (simp add: generatePipeline_begin_summarize_page guarded_fetch show_loading_def
        summarize_page_fields)
  have b: "status_message_textContent (run empty_error_events (DOMContentLoaded blank_page)) =
     error_mark @ js ''Failed to generate pipeline''"
    by (simp add: empty_error_page generatePipeline_resume_def generatePipeline_try_def Let_def
        showError_def or_else_def truthy_def empty_error_result_def)
  have c: "error_mark @ js ''Failed to generate pipeline'' \<noteq> error_mark @ []"
    by (simp add: js_def)
  from a b c show ?thesis
    by (simp add: empty_error_result_def)
qed

end
